theory Spec2Isabelle
  imports Complex_Main "HOL-Library.Sublist"
begin

section \<open>JavaScript strings and errors\<close>

text \<open>
  A JavaScript string is modelled as a \<^typ>\<open>string\<close>: the sequence of its code units, for
  strings whose code units are below 256. \<open>String.prototype.includes\<close> is the test for a
  contiguous occurrence, \<open>startsWith\<close> is \<^const>\<open>prefix\<close>.
\<close>

fun js_includes :: "string \<Rightarrow> string \<Rightarrow> bool" where
  "js_includes [] t = (t = [])"
| "js_includes (c # s) t = (prefix t (c # s) \<or> js_includes s t)"

text \<open>Decimal digits of a number, as a template literal prints it.\<close>

function show_nat :: "nat \<Rightarrow> string" where
  "show_nat n =
     (if n < 10 then [char_of (48 + n)] else show_nat (n div 10) @ [char_of (48 + n mod 10)])"
  by pat_completeness auto
termination
  by (relation "measure id") auto

text \<open>
  A thrown value: an \<open>Error\<close> object with its \<open>message\<close> and, for a failed request of the
  REST client, the HTTP \<open>status\<close>; a plain \<open>new Error(...)\<close> has no status.
\<close>

datatype js_error = JsError (err_status: "nat option") (err_message: string)

section \<open>The remote API\<close>

text \<open>
  The content of a path as \<open>repos.getContent\<close> answers it: a file (with the text that
  \<open>Buffer.from(content, 'base64').toString()\<close> yields, and its blob sha), a directory
  listing (an array, which has neither a \<open>content\<close> nor a \<open>sha\<close> property), or a symlink
  or submodule object (a \<open>sha\<close>, no \<open>content\<close>).
\<close>

datatype content_data = FileData string string | DirListing | LinkData string

text \<open>The requests the scripts send, with their parameters, as they appear on the wire.\<close>

datatype call =
    GetRepoInstallation string string
  | GetLatestRelease nat string string
  | ListCommits nat string string nat
  | GetContent nat string string string "string option"
  | PullsList nat string string string string
  | ReposGet nat string string
  | GetBranch nat string string string
  | CreateRef nat string string string string
  | UpdateRef nat string string string string
  | CreateOrUpdateFileContents nat string string string string string string "string option"
  | PullsCreate nat string string string string string string
  | AddLabels nat string string nat "string list"

text \<open>
  The remote service is a parameter of the model. Each endpoint answers a request with an
  error or with the data the script reads from the response; the answer may depend on
  every request sent before (the first argument), so that the service has a state of its
  own and nothing is assumed about it. An installation client is known by the
  installation id it authenticates with (the \<^typ>\<open>nat\<close> argument after the history).
\<close>

record github =
  apps_getRepoInstallation :: "call list \<Rightarrow> string \<Rightarrow> string \<Rightarrow> js_error + nat"
  repos_getLatestRelease :: "call list \<Rightarrow> nat \<Rightarrow> string \<Rightarrow> string \<Rightarrow> js_error + string"
  repos_listCommits :: "call list \<Rightarrow> nat \<Rightarrow> string \<Rightarrow> string \<Rightarrow> nat \<Rightarrow> js_error + string list"
  repos_getContent ::
    "call list \<Rightarrow> nat \<Rightarrow> string \<Rightarrow> string \<Rightarrow> string \<Rightarrow> string option \<Rightarrow> js_error + content_data"
  pulls_list ::
    "call list \<Rightarrow> nat \<Rightarrow> string \<Rightarrow> string \<Rightarrow> string \<Rightarrow> string \<Rightarrow> js_error + string list"
  repos_get :: "call list \<Rightarrow> nat \<Rightarrow> string \<Rightarrow> string \<Rightarrow> js_error + string"
  repos_getBranch :: "call list \<Rightarrow> nat \<Rightarrow> string \<Rightarrow> string \<Rightarrow> string \<Rightarrow> js_error + string"
  git_createRef :: "call list \<Rightarrow> nat \<Rightarrow> string \<Rightarrow> string \<Rightarrow> string \<Rightarrow> string \<Rightarrow> js_error + unit"
  git_updateRef :: "call list \<Rightarrow> nat \<Rightarrow> string \<Rightarrow> string \<Rightarrow> string \<Rightarrow> string \<Rightarrow> js_error + unit"
  repos_createOrUpdateFileContents ::
    "call list \<Rightarrow> nat \<Rightarrow> string \<Rightarrow> string \<Rightarrow> string \<Rightarrow> string \<Rightarrow> string \<Rightarrow> string
      \<Rightarrow> string option \<Rightarrow> js_error + unit"
  pulls_create ::
    "call list \<Rightarrow> nat \<Rightarrow> string \<Rightarrow> string \<Rightarrow> string \<Rightarrow> string \<Rightarrow> string \<Rightarrow> string
      \<Rightarrow> js_error + (string \<times> nat)"
  issues_addLabels ::
    "call list \<Rightarrow> nat \<Rightarrow> string \<Rightarrow> string \<Rightarrow> nat \<Rightarrow> string list \<Rightarrow> js_error + unit"

text \<open>
  What a run has done so far: the requests it has sent, in order, and the lines it has
  written to the console (the emoji that starts a line in the source is left out).
\<close>

record world =
  calls :: "call list"
  console :: "string list"

text \<open>
  A computation that reads and changes a state of type \<open>'s\<close> and either throws or
  returns; what it has written to the state before a throw is still there in the
  \<open>catch\<close> block. An awaited computation is one on the world.
\<close>

type_synonym ('a, 's) eff = "'s \<Rightarrow> (js_error + 'a) \<times> 's"

type_synonym 'a io = "('a, world) eff"

definition io_return :: "'a \<Rightarrow> ('a, 's) eff" where
  "io_return x s = (Inr x, s)"

definition io_throw :: "js_error \<Rightarrow> ('a, 's) eff" where
  "io_throw e s = (Inl e, s)"

definition io_bind :: "('a, 's) eff \<Rightarrow> ('a \<Rightarrow> ('b, 's) eff) \<Rightarrow> ('b, 's) eff" where
  "io_bind m f s = (case m s of (Inl e, s') \<Rightarrow> (Inl e, s') | (Inr x, s') \<Rightarrow> f x s')"

definition io_catch :: "('a, 's) eff \<Rightarrow> (js_error \<Rightarrow> ('a, 's) eff) \<Rightarrow> ('a, 's) eff" where
  "io_catch m h s = (case m s of (Inl e, s') \<Rightarrow> h e s' | (Inr x, s') \<Rightarrow> (Inr x, s'))"

definition io_log :: "string \<Rightarrow> unit io" where
  "io_log line s = (Inr (), s\<lparr>console := console s @ [line]\<rparr>)"

definition request :: "call \<Rightarrow> (call list \<Rightarrow> js_error + 'a) \<Rightarrow> 'a io" where
  "request c answer s = (answer (calls s), s\<lparr>calls := calls s @ [c]\<rparr>)"

text \<open>
  \<open>getInstallationOctokit\<close>: the installation of the app on a repository; a 404 becomes a
  new error without a status, any other error is thrown again.
\<close>

definition getInstallationOctokit :: "github \<Rightarrow> string \<Rightarrow> string \<Rightarrow> nat io" where
  "getInstallationOctokit gh ownr rep =
     io_catch
       (request (GetRepoInstallation ownr rep) (\<lambda>h. apps_getRepoInstallation gh h ownr rep))
       (\<lambda>error.
          if err_status error = Some 404
          then io_throw (JsError None (''GitHub App not installed on '' @ ownr @ ''/'' @ rep))
          else io_throw error)"

section \<open>The version checker\<close>

record repo_ref =
  owner :: string
  repo :: string
  workflowPath :: string
  configProfile :: "string option"

datatype status = Up_to_date | Outdated | Missing | Error

record RepositoryInfo = repo_ref +
  currentVersion :: "string option"
  lastChecked :: nat
  status :: status
  errorMessage :: "string option"
  pullRequestUrl :: "string option"



text \<open>\<open>tag_name.replace(/^v/, '')\<close> and the \<open>startsWith('v')\<close> / \<open>substring(1)\<close> pair.\<close>

fun strip_v :: "string \<Rightarrow> string" where
  "strip_v [] = []"
| "strip_v (c # s) = (if c = CHR ''v'' then s else c # s)"



text \<open>
  \<open>extractVersionFromWorkflow\<close> searches the content for
  \<open>/signinwithethereum\/workflow-automation[^@]*@([^\s\n]+)/\<close>. \<open>match_here\<close> is the attempt
  anchored at the start of its argument: the literal, then the longest run without \<open>@\<close>
  (a shorter run would be followed by a character that is not \<open>@\<close>), then \<open>@\<close>, then the
  longest non-empty run without white space, which is the captured group.
  \<open>regex_search\<close> takes the leftmost position where the attempt succeeds.
\<close>

definition is_space :: "char \<Rightarrow> bool" where
  "is_space c = (c \<in> set [CHR 0x09, CHR 0x0A, CHR 0x0B, CHR 0x0C, CHR 0x0D, CHR 0x20, CHR 0xA0])"

fun strip_prefix :: "string \<Rightarrow> string \<Rightarrow> string option" where
  "strip_prefix [] s = Some s"
| "strip_prefix (p # ps) [] = None"
| "strip_prefix (p # ps) (c # s) = (if p = c then strip_prefix ps s else None)"

definition match_here :: "string \<Rightarrow> string option" where
  "match_here s =
     (case strip_prefix ''signinwithethereum/workflow-automation'' s of
        None \<Rightarrow> None
      | Some r \<Rightarrow>
          (case dropWhile (\<lambda>c. c \<noteq> CHR ''@'') r of
             [] \<Rightarrow> None
           | _ # t \<Rightarrow>
               (let token = takeWhile (\<lambda>c. \<not> is_space c) t
                in if token = [] then None else Some token)))"

fun regex_search :: "string \<Rightarrow> string option" where
  "regex_search [] = match_here []"
| "regex_search (c # s) =
     (case match_here (c # s) of Some v \<Rightarrow> Some v | None \<Rightarrow> regex_search s)"

definition extractVersionFromWorkflow :: "string \<Rightarrow> string option" where
  "extractVersionFromWorkflow content =
     (case regex_search content of
        Some version \<Rightarrow> Some (strip_v version)
      | None \<Rightarrow> None)"

text \<open>The \<open>catch\<close> block of \<open>checkRepositoryVersion\<close>.\<close>

definition check_failed :: "repo_ref \<Rightarrow> js_error \<Rightarrow> RepositoryInfo \<Rightarrow> world \<Rightarrow> RepositoryInfo \<times> world" where
  "check_failed rp error repoInfo s =
     (if js_includes (err_message error) ''not installed''
      then (repoInfo\<lparr>status := Error,
                     errorMessage := Some ''GitHub App not installed on repository''\<rparr>,
            s\<lparr>console := console s @ [''GitHub App not installed on '' @ owner rp @ ''/'' @ repo rp]\<rparr>)
      else if err_status error = Some 404
      then (repoInfo\<lparr>status := Missing,
                     errorMessage := Some ''Workflow file not found or repository not accessible''\<rparr>,
            s\<lparr>console := console s @
                 [''Repository or workflow file not found: '' @ owner rp @ ''/'' @ repo rp]\<rparr>)
      else (repoInfo\<lparr>status := Error, errorMessage := Some (err_message error)\<rparr>,
            s\<lparr>console := console s @
                 [''Error checking '' @ owner rp @ ''/'' @ repo rp @ '': '' @ err_message error]\<rparr>))"

text \<open>
  \<open>checkRepositoryVersion\<close>. The record \<open>repoInfo\<close> is mutated inside the \<open>try\<close> block, and
  what was written before a throw is still there in the \<open>catch\<close> block. \<open>now\<close> is what
  \<open>new Date()\<close> gives. A version is truthy when it is neither \<open>null\<close> nor empty.
\<close>

definition checkRepositoryVersion ::
  "github \<Rightarrow> nat \<Rightarrow> repo_ref \<Rightarrow> world \<Rightarrow> RepositoryInfo \<times> world" where
  "checkRepositoryVersion gh now rp s =
     (let repoInfo = \<lparr>owner = owner rp, repo = repo rp, workflowPath = workflowPath rp,
                      configProfile = configProfile rp, currentVersion = None,
                      lastChecked = now, status = Error, errorMessage = None,
                      pullRequestUrl = None\<rparr>;
          s0 = s\<lparr>console := console s @ [''Checking '' @ owner rp @ ''/'' @ repo rp @ ''...'']\<rparr>
      in case getInstallationOctokit gh (owner rp) (repo rp) s0 of
           (Inl error, s1) \<Rightarrow> check_failed rp error repoInfo s1
         | (Inr installationOctokit, s1) \<Rightarrow>
             (case request (GetContent installationOctokit (owner rp) (repo rp) (workflowPath rp) None)
                     (\<lambda>h. repos_getContent gh h installationOctokit (owner rp) (repo rp)
                             (workflowPath rp) None) s1 of
                (Inl error, s2) \<Rightarrow> check_failed rp error repoInfo s2
              | (Inr fileData, s2) \<Rightarrow>
                  (let repoInfo1 =
                     (case fileData of
                        FileData content sha \<Rightarrow>
                          (let version = extractVersionFromWorkflow content
                           in if version \<noteq> None \<and> version \<noteq> Some []
                              then repoInfo\<lparr>currentVersion := version, status := Up_to_date\<rparr>
                              else repoInfo\<lparr>currentVersion := version, status := Error,
                                     errorMessage := Some ''Could not extract version from workflow file''\<rparr>)
                      | _ \<Rightarrow> repoInfo\<lparr>status := Error,
                                      errorMessage := Some ''Workflow file is not a regular file''\<rparr>)
                   in case request (PullsList installationOctokit (owner rp) (repo rp) ''open''
                                      (owner rp @ '':workflow-automation/update-''))
                             (\<lambda>h. pulls_list gh h installationOctokit (owner rp) (repo rp) ''open''
                                     (owner rp @ '':workflow-automation/update-'')) s2 of
                        (Inl error, s3) \<Rightarrow> check_failed rp error repoInfo1 s3
                      | (Inr pulls, s3) \<Rightarrow>
                          (case pulls of
                             [] \<Rightarrow> (repoInfo1, s3)
                           | html_url # _ \<Rightarrow> (repoInfo1\<lparr>pullRequestUrl := Some html_url\<rparr>, s3)))))"

text \<open>
  \<open>updateVersionStatus\<close>: the loop over the entries changes nothing but the status of the
  entry it visits. \<open>null === centralVersion\<close> is false.
\<close>

definition compare_version :: "string \<Rightarrow> RepositoryInfo \<Rightarrow> RepositoryInfo" where
  "compare_version centralVersion rp =
     (if status rp = Error \<or> status rp = Missing then rp
      else if currentVersion rp = Some centralVersion \<or>
              currentVersion rp = Some (''v'' @ centralVersion) \<or>
              currentVersion rp = Some ''main''
      then rp\<lparr>status := Up_to_date\<rparr>
      else rp\<lparr>status := Outdated\<rparr>)"

fun updateVersionStatus :: "RepositoryInfo list \<Rightarrow> string \<Rightarrow> RepositoryInfo list" where
  "updateVersionStatus [] centralVersion = []"
| "updateVersionStatus (rp # repositories) centralVersion =
     compare_version centralVersion rp # updateVersionStatus repositories centralVersion"

section \<open>The update propagator\<close>

record RepositoryConfig = repo_ref +
  enabled :: bool
  lastUpdated :: "string option"

record UpdateConfig =
  repositories :: "RepositoryConfig list"
  workflowVersion :: string
  updateMessage :: string
  dryRun :: bool

text \<open>\<open>repo.configProfile || 'default'\<close>: an absent or empty profile is falsy.\<close>

definition profile_or_default :: "'a repo_ref_scheme \<Rightarrow> string" where
  "profile_or_default rp =
     (case configProfile rp of None \<Rightarrow> ''default'' | Some p \<Rightarrow> if p = [] then ''default'' else p)"

text \<open>The lines of a template literal, joined by line feeds.\<close>

definition unlines :: "string list \<Rightarrow> string" where
  "unlines ls = concat (map (\<lambda>l. l @ [CHR 0x0A]) (butlast ls)) @ (if ls = [] then [] else last ls)"

definition secrets_block :: "string list" where
  "secrets_block =
     [''    secrets:'',
      ''      DEV_OPS_BOT_CLAUDE_CODE_OAUTH_TOKEN: ${{ secrets.DEV_OPS_BOT_CLAUDE_CODE_OAUTH_TOKEN }}'',
      ''      DEV_OPS_BOT_APP_ID: ${{ secrets.DEV_OPS_BOT_APP_ID }}'',
      ''      DEV_OPS_BOT_PRIVATE_KEY: ${{ secrets.DEV_OPS_BOT_PRIVATE_KEY }}'',
      ''      DEV_OPS_BOT_ALLOWED_USER_LIST: ${{ secrets.DEV_OPS_BOT_ALLOWED_USER_LIST }}'']"

definition generateCallerWorkflow :: "UpdateConfig \<Rightarrow> RepositoryConfig \<Rightarrow> string" where
  "generateCallerWorkflow config rp =
     unlines
       ([''name: AI Code Review'',
         ''on:'',
         ''  pull_request:'',
         ''    types: [opened, synchronize, reopened]'',
         [],
         ''permissions:'',
         ''  contents: read'',
         ''  pull-requests: write'',
         ''  issues: write'',
         ''  actions: read    '',
         [],
         ''jobs:'',
         ''  ai-review:'',
         ''    uses: signinwithethereum/workflow-automation/.github/workflows/pr-review.yml@v''
           @ workflowVersion config,
         ''    with:'',
         ''      config-profile: '' @ [CHR 0x22] @ profile_or_default rp @ [CHR 0x22]]
        @ secrets_block)"

definition generateOnDemandWorkflow :: "UpdateConfig \<Rightarrow> RepositoryConfig \<Rightarrow> string" where
  "generateOnDemandWorkflow config rp =
     unlines
       ([''name: AI On-Demand Assistant  '',
         ''on:'',
         ''  issue_comment:'',
         ''    types: [created]'',
         ''  pull_request_review_comment:'',
         ''    types: [created]'',
         ''  pull_request_review:'',
         ''    types: [submitted]'',
         ''  issues:'',
         ''    types: [opened]'',
         [],
         ''permissions:'',
         ''  contents: read'',
         ''  issues: write'',
         ''  pull-requests: write'',
         ''  actions: read'',
         [],
         ''jobs:'',
         ''  ai-response:'',
         ''    uses: signinwithethereum/workflow-automation/.github/workflows/issue-response.yml@v''
           @ workflowVersion config,
         ''    with:'',
         ''      config-profile: '' @ [CHR 0x22] @ profile_or_default rp @ [CHR 0x22],
         ''      bot-mention: '' @ [CHR 0x22] @ ''@siwe-dev-ops'' @ [CHR 0x22],
         ''      enable-auto-labeling: true'',
         ''      enable-escalation: true'']
        @ secrets_block)"

text \<open>
  \<open>needsUpdate\<close>: a file that lacks the marker \<open>@v<version>\<close>, a path that is not a file,
  and a 404 all mean that the target needs the update; any other error is thrown again
  (also the "not installed" error, which has no status).
\<close>

definition needsUpdate :: "github \<Rightarrow> UpdateConfig \<Rightarrow> RepositoryConfig \<Rightarrow> bool io" where
  "needsUpdate gh config rp =
     io_catch
       (io_bind (getInstallationOctokit gh (owner rp) (repo rp)) (\<lambda>installationOctokit.
        io_bind (request (GetContent installationOctokit (owner rp) (repo rp) (workflowPath rp) None)
                   (\<lambda>h. repos_getContent gh h installationOctokit (owner rp) (repo rp)
                           (workflowPath rp) None))
          (\<lambda>currentFile.
             case currentFile of
               FileData currentContent sha \<Rightarrow>
                 io_return (\<not> js_includes currentContent (''@v'' @ workflowVersion config))
             | _ \<Rightarrow> io_return True)))
       (\<lambda>error. if err_status error = Some 404 then io_return True else io_throw error)"

text \<open>
  \<open>updateFile\<close>: the blob sha of an existing file (anything with a \<open>sha\<close> property) is
  sent with the write; a 404 of the read means a new file. The content is recorded
  before its base64 encoding.
\<close>

definition updateFile ::
  "github \<Rightarrow> nat \<Rightarrow> RepositoryConfig \<Rightarrow> string \<Rightarrow> string \<Rightarrow> string \<Rightarrow> string \<Rightarrow> unit io" where
  "updateFile gh octokit rp branch filePath content commitMessage =
     io_bind
       (io_catch
          (io_bind (request (GetContent octokit (owner rp) (repo rp) filePath (Some branch))
                      (\<lambda>h. repos_getContent gh h octokit (owner rp) (repo rp) filePath (Some branch)))
             (\<lambda>existingFile.
                case existingFile of
                  FileData c sha \<Rightarrow> io_return (Some sha)
                | LinkData sha \<Rightarrow> io_return (Some sha)
                | DirListing \<Rightarrow> io_return None))
          (\<lambda>error. if err_status error \<noteq> Some 404 then io_throw error else io_return None))
       (\<lambda>sha.
          request (CreateOrUpdateFileContents octokit (owner rp) (repo rp) filePath commitMessage
                     content branch sha)
            (\<lambda>h. repos_createOrUpdateFileContents gh h octokit (owner rp) (repo rp) filePath
                    commitMessage content branch sha))"

definition pr_title :: "UpdateConfig \<Rightarrow> string" where
  "pr_title config = ''Update AI Workflow Automation to v'' @ workflowVersion config"

definition pr_body :: "UpdateConfig \<Rightarrow> RepositoryConfig \<Rightarrow> string" where
  "pr_body config rp =
     unlines
       [''## Workflow Automation Update'',
        [],
        ''This PR updates the AI workflow automation to version **v'' @ workflowVersion config @ ''**.'',
        [],
        ''### Changes'',
        ''- Updated AI review workflow to use latest central workflow version'',
        ''- Updated AI on-demand response workflow'',
        ''- Improved configuration handling and error management'',
        ''- Enhanced prompt templates and language support'',
        [],
        ''### What This Enables'',
        ''- Latest AI review capabilities'',
        ''- Improved prompt templates'',
        ''- Enhanced security and quality checks'',
        ''- Better configuration management'',
        [],
        ''### Configuration'',
        ''- **Profile**: '' @ profile_or_default rp,
        ''- **Central Repository**: signinwithethereum/workflow-automation@v'' @ workflowVersion config,
        [],
        updateMessage config,
        [],
        ''---'',
        ''This PR was automatically created by the [SIWE Workflow Automation System](https://github.com/signinwithethereum/workflow-automation)'']"

text \<open>
  \<open>createPullRequest\<close>: a failure to attach the labels is logged and dropped; a 422 of the
  creation means that the pull request exists already and is logged; any other error of
  the creation is thrown again.
\<close>

definition createPullRequest ::
  "github \<Rightarrow> UpdateConfig \<Rightarrow> nat \<Rightarrow> RepositoryConfig \<Rightarrow> string \<Rightarrow> string \<Rightarrow> unit io" where
  "createPullRequest gh config octokit rp branchName baseBranch =
     io_catch
       (io_bind (request (PullsCreate octokit (owner rp) (repo rp) (pr_title config)
                            (pr_body config rp) branchName baseBranch)
                   (\<lambda>h. pulls_create gh h octokit (owner rp) (repo rp) (pr_title config)
                           (pr_body config rp) branchName baseBranch))
          (\<lambda>(html_url, number).
             io_bind (io_log (''Created pull request: '' @ html_url)) (\<lambda>_.
             io_catch
               (request (AddLabels octokit (owner rp) (repo rp) number
                           [''automation'', ''workflow-update'', ''ai-review''])
                  (\<lambda>h. issues_addLabels gh h octokit (owner rp) (repo rp) number
                          [''automation'', ''workflow-update'', ''ai-review'']))
               (\<lambda>labelError.
                  io_log (''Could not add labels to PR (this is normal if labels don'' @ [CHR 0x27] @
                          ''t exist)'')))))
       (\<lambda>error.
          if err_status error = Some 422
          then io_log (''Pull request already exists for '' @ branchName)
          else io_throw error)"

text \<open>\<open>String.prototype.replace\<close> with a string pattern: the first occurrence only.\<close>

fun replace_first :: "string \<Rightarrow> string \<Rightarrow> string \<Rightarrow> string" where
  "replace_first pat rep [] = (if pat = [] then rep else [])"
| "replace_first pat rep (c # s) =
     (if prefix pat (c # s) then rep @ drop (length pat) (c # s)
      else c # replace_first pat rep s)"

definition updateRepository :: "github \<Rightarrow> UpdateConfig \<Rightarrow> RepositoryConfig \<Rightarrow> unit io" where
  "updateRepository gh config rp =
     (if \<not> enabled rp
      then io_log (''Skipping disabled repository: '' @ owner rp @ ''/'' @ repo rp)
      else
        io_bind (io_log (''Checking repository: '' @ owner rp @ ''/'' @ repo rp)) (\<lambda>_.
        io_bind (needsUpdate gh config rp) (\<lambda>needed.
          if \<not> needed
          then io_log (''Repository '' @ owner rp @ ''/'' @ repo rp @ '' is up to date'')
          else if dryRun config
          then io_log (''[DRY RUN] Would update '' @ owner rp @ ''/'' @ repo rp)
          else
            io_catch
              (io_bind (getInstallationOctokit gh (owner rp) (repo rp)) (\<lambda>installationOctokit.
               let branchName = ''workflow-automation/update-v'' @ workflowVersion config in
               io_bind (request (ReposGet installationOctokit (owner rp) (repo rp))
                          (\<lambda>h. repos_get gh h installationOctokit (owner rp) (repo rp)))
                 (\<lambda>defaultBranch.
               io_bind (request (GetBranch installationOctokit (owner rp) (repo rp) defaultBranch)
                          (\<lambda>h. repos_getBranch gh h installationOctokit (owner rp) (repo rp)
                                  defaultBranch))
                 (\<lambda>commit_sha.
               io_bind
                 (io_catch
                    (io_bind (request (CreateRef installationOctokit (owner rp) (repo rp)
                                         (''refs/heads/'' @ branchName) commit_sha)
                                (\<lambda>h. git_createRef gh h installationOctokit (owner rp) (repo rp)
                                        (''refs/heads/'' @ branchName) commit_sha))
                       (\<lambda>_. io_log (''Created branch: '' @ branchName)))
                    (\<lambda>error.
                       if err_status error = Some 422
                       then io_bind (request (UpdateRef installationOctokit (owner rp) (repo rp)
                                                (''heads/'' @ branchName) commit_sha)
                                       (\<lambda>h. git_updateRef gh h installationOctokit (owner rp) (repo rp)
                                               (''heads/'' @ branchName) commit_sha))
                              (\<lambda>_. io_log (''Updated existing branch: '' @ branchName))
                       else io_throw error))
                 (\<lambda>_.
               io_bind (updateFile gh installationOctokit rp branchName (workflowPath rp)
                          (generateCallerWorkflow config rp)
                          (''Update AI review workflow to v'' @ workflowVersion config))
                 (\<lambda>_.
               io_bind (updateFile gh installationOctokit rp branchName
                          (replace_first ''ai-review.yml'' ''ai-on-demand.yml'' (workflowPath rp))
                          (generateOnDemandWorkflow config rp)
                          (''Update AI on-demand workflow to v'' @ workflowVersion config))
                 (\<lambda>_.
               io_bind (createPullRequest gh config installationOctokit rp branchName defaultBranch)
                 (\<lambda>_.
               io_log (''Successfully updated '' @ owner rp @ ''/'' @ repo rp)))))))))
              (\<lambda>error.
                 io_bind (io_log (''Failed to update '' @ owner rp @ ''/'' @ repo rp @ '': ''
                                    @ err_message error))
                   (\<lambda>_. io_throw error)))))"

text \<open>
  The body of the loop of \<open>run\<close>, with its \<open>try\<close> and \<open>catch\<close>: what the tally gains from
  one target. After \<open>updateRepository\<close> returns, \<open>repo.enabled && await needsUpdate(repo)\<close>
  asks the service again, for an enabled target only. \<open>console.error(label, error)\<close>
  prints the error object after the label; the line of the model holds the message of
  the error in its place (here and in \<open>updateRepository\<close>).
\<close>

datatype outcome = Succeeded | Skipped | Failed

record tally =
  success :: nat
  skipped :: nat
  failed :: nat

definition process_failed :: "RepositoryConfig \<Rightarrow> js_error \<Rightarrow> world \<Rightarrow> world" where
  "process_failed rp error s =
     s\<lparr>console := console s @
         [''Failed to process '' @ owner rp @ ''/'' @ repo rp @ '': '' @ err_message error]\<rparr>"

definition process_target ::
  "github \<Rightarrow> UpdateConfig \<Rightarrow> RepositoryConfig \<Rightarrow> world \<Rightarrow> outcome \<times> world" where
  "process_target gh config rp s =
     (case updateRepository gh config rp s of
        (Inl error, s1) \<Rightarrow> (Failed, process_failed rp error s1)
      | (Inr _, s1) \<Rightarrow>
          if enabled rp
          then (case needsUpdate gh config rp s1 of
                  (Inl error, s2) \<Rightarrow> (Failed, process_failed rp error s2)
                | (Inr needed, s2) \<Rightarrow> (if needed then Succeeded else Skipped, s2))
          else (Skipped, s1))"

fun count_outcome :: "outcome \<Rightarrow> tally \<Rightarrow> tally" where
  "count_outcome Succeeded counts = counts\<lparr>success := success counts + 1\<rparr>"
| "count_outcome Skipped counts = counts\<lparr>skipped := skipped counts + 1\<rparr>"
| "count_outcome Failed counts = counts\<lparr>failed := failed counts + 1\<rparr>"

fun run_loop ::
  "github \<Rightarrow> UpdateConfig \<Rightarrow> RepositoryConfig list \<Rightarrow> tally \<Rightarrow> world \<Rightarrow> tally \<times> world" where
  "run_loop gh config [] counts s = (counts, s)"
| "run_loop gh config (rp # rest) counts s =
     (case process_target gh config rp s of
        (oc, s') \<Rightarrow> run_loop gh config rest (count_outcome oc counts) s')"





text \<open>
  The failures of the requests of a run. \<open>answer_error gh h c\<close> is the error, if any, with
  which the service answers the request \<open>c\<close> sent after the requests \<open>h\<close>;
  \<open>failed_requests gh h new\<close> lists, in order, the requests of \<open>new\<close> (sent one after the
  other, after \<open>h\<close>) that fail, each with its error.
\<close>

definition err_of :: "js_error + 'a \<Rightarrow> js_error option" where
  "err_of answer = (case answer of Inl e \<Rightarrow> Some e | Inr x \<Rightarrow> None)"

fun answer_error :: "github \<Rightarrow> call list \<Rightarrow> call \<Rightarrow> js_error option" where
  "answer_error gh h (GetRepoInstallation ownr rep) = err_of (apps_getRepoInstallation gh h ownr rep)"
| "answer_error gh h (GetLatestRelease i ownr rep) = err_of (repos_getLatestRelease gh h i ownr rep)"
| "answer_error gh h (ListCommits i ownr rep n) = err_of (repos_listCommits gh h i ownr rep n)"
| "answer_error gh h (GetContent i ownr rep p r) = err_of (repos_getContent gh h i ownr rep p r)"
| "answer_error gh h (PullsList i ownr rep st hdr) = err_of (pulls_list gh h i ownr rep st hdr)"
| "answer_error gh h (ReposGet i ownr rep) = err_of (repos_get gh h i ownr rep)"
| "answer_error gh h (GetBranch i ownr rep b) = err_of (repos_getBranch gh h i ownr rep b)"
| "answer_error gh h (CreateRef i ownr rep r sha) = err_of (git_createRef gh h i ownr rep r sha)"
| "answer_error gh h (UpdateRef i ownr rep r sha) = err_of (git_updateRef gh h i ownr rep r sha)"
| "answer_error gh h (CreateOrUpdateFileContents i ownr rep p m c b sha) =
     err_of (repos_createOrUpdateFileContents gh h i ownr rep p m c b sha)"
| "answer_error gh h (PullsCreate i ownr rep t b hdr bs) = err_of (pulls_create gh h i ownr rep t b hdr bs)"
| "answer_error gh h (AddLabels i ownr rep n ls) = err_of (issues_addLabels gh h i ownr rep n ls)"

fun failed_requests :: "github \<Rightarrow> call list \<Rightarrow> call list \<Rightarrow> (call \<times> js_error) list" where
  "failed_requests gh h [] = []"
| "failed_requests gh h (c # rest) =
     (case answer_error gh h c of None \<Rightarrow> [] | Some e \<Rightarrow> [(c, e)])
     @ failed_requests gh (h @ [c]) rest"

text \<open>
  The failures that the propagator takes in its stride: a 404 of a file read (the file is
  taken as absent, in \<open>needsUpdate\<close> and in \<open>updateFile\<close>), a 422 of the creation of the
  branch (it exists already, and is updated), a 422 of the creation of the pull request
  (it exists already), and any failure to attach the labels.
\<close>

fun handled :: "call \<Rightarrow> js_error \<Rightarrow> bool" where
  "handled (GetContent i ownr rep p r) e = (err_status e = Some 404)"
| "handled (CreateRef i ownr rep r sha) e = (err_status e = Some 422)"
| "handled (PullsCreate i ownr rep t b hdr bs) e = (err_status e = Some 422)"
| "handled (AddLabels i ownr rep n ls) e = True"
| "handled c e = False"

definition unhandled_failures :: "github \<Rightarrow> call list \<Rightarrow> call list \<Rightarrow> (call \<times> js_error) list" where
  "unhandled_failures gh h new = filter (\<lambda>(c, e). \<not> handled c e) (failed_requests gh h new)"


section \<open>JSON values and the JavaScript operations on them\<close>

text \<open>
  A JSON number, as the double that \<open>JSON.parse\<close> yields: a rational, or an infinity for
  a literal out of range. \<open>NaN\<close> and \<open>undefined\<close> are not JSON values; they are the
  \<open>None\<close> of an option where they can arise.
\<close>

datatype jsnum = NegInf | Fin rat | PosInf

fun num_less :: "jsnum \<Rightarrow> jsnum \<Rightarrow> bool" where
  "num_less (Fin a) (Fin b) = (a < b)"
| "num_less NegInf b = (b \<noteq> NegInf)"
| "num_less a PosInf = (a \<noteq> PosInf)"
| "num_less a b = False"

text \<open>
  A parsed document. An object is the list of its own properties, each key once, in the
  order in which \<open>Object.entries\<close> lists them.
\<close>

datatype json =
    JNull
  | JBool bool
  | JNum jsnum
  | JStr string
  | JArr "json list"
  | JObj "(string \<times> json) list"

text \<open>
  One violation as the schema validator reports it. The fields of \<open>params\<close> hold the text
  that the template literal (or \<open>join\<close>, for the elements of \<open>allowedValues\<close>) yields
  for them, and \<open>message\<close> the text of \<open>${message}\<close>.
\<close>

record ajv_error =
  keyword :: string
  instancePath :: string
  message :: string
  missingProperty :: string
  type_param :: string
  allowedValues :: "string list"
  limit :: string

text \<open>
  What the validator takes from the language and its libraries: \<open>JSON.parse\<close>; the
  compilation of a schema (which throws on a schema it rejects) to a validate function,
  which returns a boolean and leaves \<open>validate.errors\<close> (\<open>null\<close> or a list); the
  validator compiles with one Ajv instance, created with the validator and kept for all
  its documents, and what \<open>compile\<close> answers may depend on the schemas that this
  instance has been asked to compile before (the first argument); the
  conversion to a number of a string, an array or an object (\<open>None\<close> is \<open>NaN\<close>) and to a
  string of a value that is not one, both of which can throw; the message of the
  \<open>TypeError\<close> that the evaluation of an expression throws; and \<open>path.join\<close>.
\<close>

record engine =
  json_parse :: "string \<Rightarrow> js_error + json"
  ajv_compile :: "json list \<Rightarrow> json \<Rightarrow> js_error + (json \<Rightarrow> bool \<times> ajv_error list option)"
  coerce_number :: "json \<Rightarrow> js_error + jsnum option"
  coerce_string :: "json \<Rightarrow> js_error + string"
  type_error :: "string \<Rightarrow> string"
  path_join :: "string \<Rightarrow> string \<Rightarrow> string"

text \<open>
  The file system: \<open>existsSync\<close>, \<open>readFileSync\<close>, \<open>Bun.file(path).size\<close> (\<open>None\<close> is
  \<open>undefined\<close>, which is what the code compares the size with; the size of a \<open>Blob\<close>
  is a number) and \<open>readdirSync\<close>.
\<close>

record filesystem =
  existsSync :: "string \<Rightarrow> bool"
  readFileSync :: "string \<Rightarrow> js_error + string"
  file_size :: "string \<Rightarrow> nat option"
  readdirSync :: "string \<Rightarrow> js_error + string list"

definition and_then :: "js_error + 'a \<Rightarrow> ('a \<Rightarrow> js_error + 'b) \<Rightarrow> js_error + 'b" where
  "and_then m f = (case m of Inl e \<Rightarrow> Inl e | Inr x \<Rightarrow> f x)"

definition throw_type_error :: "engine \<Rightarrow> string \<Rightarrow> js_error + 'a" where
  "throw_type_error eng expr = Inl (JsError None (type_error eng expr))"

text \<open>
  Reading a property, for the property names the validator reads as data (none of them is
  a property of a string, an array, a number or a boolean, or of \<open>Object.prototype\<close>):
  of a value that is neither \<open>null\<close> nor \<open>undefined\<close> (\<open>get_prop\<close>), of the parsed
  document (\<open>config_member\<close>, which throws on \<open>null\<close>), and with \<open>?.\<close> (\<open>opt_member\<close>).
\<close>

definition get_prop :: "json \<Rightarrow> string \<Rightarrow> json option" where
  "get_prop v k = (case v of JObj kvs \<Rightarrow> map_of kvs k | _ \<Rightarrow> None)"

definition config_member :: "engine \<Rightarrow> json \<Rightarrow> string \<Rightarrow> js_error + json option" where
  "config_member eng config k =
     (if config = JNull then throw_type_error eng (''config.'' @ k) else Inr (get_prop config k))"

definition opt_member :: "json option \<Rightarrow> string \<Rightarrow> json option" where
  "opt_member x k =
     (case x of None \<Rightarrow> None | Some JNull \<Rightarrow> None | Some v \<Rightarrow> get_prop v k)"

text \<open>\<open>x?.length\<close>: the length of an array or a string, a property of an object.\<close>

definition opt_length :: "json option \<Rightarrow> json option" where
  "opt_length x =
     (case x of
        None \<Rightarrow> None
      | Some JNull \<Rightarrow> None
      | Some (JArr xs) \<Rightarrow> Some (JNum (Fin (of_nat (length xs))))
      | Some (JStr s) \<Rightarrow> Some (JNum (Fin (of_nat (length s))))
      | Some v \<Rightarrow> get_prop v ''length'')"

definition truthy :: "json option \<Rightarrow> bool" where
  "truthy x =
     (case x of
        None \<Rightarrow> False
      | Some JNull \<Rightarrow> False
      | Some (JBool b) \<Rightarrow> b
      | Some (JNum n) \<Rightarrow> n \<noteq> Fin 0
      | Some (JStr s) \<Rightarrow> s \<noteq> []
      | Some v \<Rightarrow> True)"

text \<open>
  \<open>ToNumber\<close>, and the comparisons with a number literal: a comparison with \<open>NaN\<close> is
  false.
\<close>

definition to_number :: "engine \<Rightarrow> json option \<Rightarrow> js_error + jsnum option" where
  "to_number eng x =
     (case x of
        None \<Rightarrow> Inr None
      | Some JNull \<Rightarrow> Inr (Some (Fin 0))
      | Some (JBool b) \<Rightarrow> Inr (Some (Fin (if b then 1 else 0)))
      | Some (JNum n) \<Rightarrow> Inr (Some n)
      | Some v \<Rightarrow> coerce_number eng v)"

definition less_than :: "engine \<Rightarrow> json option \<Rightarrow> rat \<Rightarrow> js_error + bool" where
  "less_than eng x n =
     and_then (to_number eng x) (\<lambda>v. Inr (case v of None \<Rightarrow> False | Some a \<Rightarrow> num_less a (Fin n)))"

definition greater_than :: "engine \<Rightarrow> json option \<Rightarrow> rat \<Rightarrow> js_error + bool" where
  "greater_than eng x n =
     and_then (to_number eng x) (\<lambda>v. Inr (case v of None \<Rightarrow> False | Some a \<Rightarrow> num_less (Fin n) a))"

definition to_string :: "engine \<Rightarrow> json \<Rightarrow> js_error + string" where
  "to_string eng v = (case v of JStr s \<Rightarrow> Inr s | _ \<Rightarrow> coerce_string eng v)"

text \<open>\<open>Array.prototype.join\<close> on strings.\<close>

fun js_join :: "string \<Rightarrow> string list \<Rightarrow> string" where
  "js_join sep [] = []"
| "js_join sep [x] = x"
| "js_join sep (x # y # ys) = x @ sep @ js_join sep (y # ys)"

text \<open>\<open>Object.entries\<close> of a value that is neither \<open>null\<close> nor \<open>undefined\<close>.\<close>

definition object_entries :: "json \<Rightarrow> (string \<times> json) list" where
  "object_entries v =
     (case v of
        JObj kvs \<Rightarrow> kvs
      | JArr xs \<Rightarrow> zip (map show_nat [0..<length xs]) xs
      | JStr s \<Rightarrow> zip (map show_nat [0..<length s]) (map (\<lambda>c. JStr [c]) s)
      | _ \<Rightarrow> [])"

text \<open>The values that \<open>for (const x of v)\<close> visits, for a truthy \<open>v\<close>.\<close>

definition iterate :: "engine \<Rightarrow> string \<Rightarrow> json \<Rightarrow> js_error + json list" where
  "iterate eng expr v =
     (case v of
        JArr xs \<Rightarrow> Inr xs
      | JStr s \<Rightarrow> Inr (map (\<lambda>c. JStr [c]) s)
      | _ \<Rightarrow> throw_type_error eng expr)"

section \<open>The configuration validator\<close>

record ValidationResult =
  result_file :: string
  valid :: bool
  errors :: "string list"
  warnings :: "string list"

record summary =
  commonErrors :: "string \<rightharpoonup> nat"
  commonWarnings :: "string \<rightharpoonup> nat"

record ValidationReport =
  timestamp :: nat
  schemaVersion :: json
  totalFiles :: nat
  validFiles :: nat
  invalidFiles :: nat
  results :: "ValidationResult list"
  summary :: summary

definition formatAjvError :: "ajv_error \<Rightarrow> string" where
  "formatAjvError error =
     (let path = (if instancePath error = [] then ''root'' else instancePath error)
      in if keyword error = ''required''
           then ''Missing required property: '' @ missingProperty error
         else if keyword error = ''type''
           then ''Property '' @ [CHR 0x27] @ path @ [CHR 0x27] @ '' should be '' @ type_param error
         else if keyword error = ''enum''
           then ''Property '' @ [CHR 0x27] @ path @ [CHR 0x27] @ '' should be one of: '' @ js_join '', '' (allowedValues error)
         else if keyword error = ''minimum''
           then ''Property '' @ [CHR 0x27] @ path @ [CHR 0x27] @ '' should be >= '' @ limit error
         else if keyword error = ''maximum''
           then ''Property '' @ [CHR 0x27] @ path @ [CHR 0x27] @ '' should be <= '' @ limit error
         else path @ '': '' @ message error)"

text \<open>\<open>if (cond) result.warnings.push(msg)\<close> and its sibling for errors.\<close>

definition warn_when :: "js_error + bool \<Rightarrow> string \<Rightarrow> (unit, ValidationResult) eff" where
  "warn_when cond msg r =
     (case cond of
        Inl e \<Rightarrow> (Inl e, r)
      | Inr b \<Rightarrow> (Inr (), if b then r\<lparr>warnings := warnings r @ [msg]\<rparr> else r))"

definition error_when :: "js_error + bool \<Rightarrow> string \<Rightarrow> (unit, ValidationResult) eff" where
  "error_when cond msg r =
     (case cond of
        Inl e \<Rightarrow> (Inl e, r)
      | Inr b \<Rightarrow> (Inr (), if b then r\<lparr>errors := errors r @ [msg]\<rparr> else r))"

text \<open>
  \<open>config.model && config.model.includes('haiku')\<close>: \<open>includes\<close> is a method of strings
  and of arrays only.
\<close>

definition model_is_haiku :: "engine \<Rightarrow> json \<Rightarrow> js_error + bool" where
  "model_is_haiku eng config =
     and_then (config_member eng config ''model'') (\<lambda>model.
       if truthy model
       then (case model of
               Some (JStr s) \<Rightarrow> Inr (js_includes s ''haiku'')
             | Some (JArr xs) \<Rightarrow> Inr (JStr ''haiku'' \<in> set xs)
             | _ \<Rightarrow> throw_type_error eng ''config.model.includes'')
       else Inr False)"

definition disabled_rules :: "json \<Rightarrow> string list" where
  "disabled_rules security_rules =
     map fst (filter (\<lambda>(rule, enabled). enabled = JBool False) (object_entries security_rules))"

definition addCustomWarnings :: "engine \<Rightarrow> json \<Rightarrow> (unit, ValidationResult) eff" where
  "addCustomWarnings eng config =
     io_bind (warn_when
                (and_then (config_member eng config ''review_rules'') (\<lambda>review_rules.
                   less_than eng (opt_member review_rules ''min_test_coverage'') 50))
                ''Low test coverage requirement (< 50%) may indicate insufficient testing standards'')
       (\<lambda>_.
     io_bind (warn_when
                (and_then (config_member eng config ''review_rules'') (\<lambda>review_rules.
                   greater_than eng (opt_member review_rules ''max_complexity'') 20))
                ''High complexity threshold (> 20) may allow overly complex code'')
       (\<lambda>_.
     io_bind (warn_when
                (and_then (config_member eng config ''review_rules'') (\<lambda>review_rules.
                   greater_than eng (opt_member review_rules ''max_function_length'') 100))
                ''High function length limit (> 100) may allow overly long functions'')
       (\<lambda>_.
     io_bind (\<lambda>r.
                case config_member eng config ''security_rules'' of
                  Inl e \<Rightarrow> (Inl e, r)
                | Inr None \<Rightarrow> (Inr (), r)
                | Inr (Some security_rules) \<Rightarrow>
                    (Inr (),
                     if truthy (Some security_rules) \<and>
                        list_ex (\<lambda>rule. rule = JBool False) (map snd (object_entries security_rules))
                     then r\<lparr>warnings := warnings r @
                            [''Disabled security checks: '' @
                               js_join '', '' (disabled_rules security_rules)]\<rparr>
                     else r))
       (\<lambda>_.
     io_bind (warn_when
                (and_then (config_member eng config ''exclusions'') (\<lambda>exclusions.
                   greater_than eng (opt_length (opt_member exclusions ''file_patterns'')) 20))
                ''Large number of file exclusion patterns may hide important files from review'')
       (\<lambda>_.
     io_bind (warn_when
                (and_then (config_member eng config ''response_settings'') (\<lambda>response_settings.
                   greater_than eng (opt_member response_settings ''max_response_length'') 5000))
                ''Very high response length limit may lead to overly verbose responses'')
       (\<lambda>_.
     io_bind (warn_when (model_is_haiku eng config)
                ''Using Haiku model may provide less comprehensive reviews than Sonnet'')
       (\<lambda>_.
     io_bind (warn_when
                (and_then (config_member eng config ''language_specific'') (\<lambda>language_specific.
                   Inr (opt_member (opt_member language_specific ''typescript'') ''strict_mode''
                          = Some (JBool False))))
                ''TypeScript strict mode disabled - may miss type-related issues'')
       (\<lambda>_.
     warn_when
       (and_then (config_member eng config ''language_specific'') (\<lambda>language_specific.
          Inr (opt_member (opt_member language_specific ''python'') ''check_type_hints''
                 = Some (JBool False))))
       ''Python type hint checking disabled - may miss type-related issues''))))))))"

text \<open>
  \<open>filePattern.includes(dirPattern.replace('/', ''))\<close>, in the order of evaluation: the
  property \<open>includes\<close> is read (which throws on \<open>null\<close>), then the argument is evaluated
  (\<open>replace\<close> is a method of strings only, and takes out the first \<open>/\<close>), then the call is
  made (\<open>includes\<close> is a method of strings and of arrays only).
\<close>

definition pattern_covered :: "engine \<Rightarrow> json \<Rightarrow> json \<Rightarrow> js_error + bool" where
  "pattern_covered eng filePattern dirPattern =
     (if filePattern = JNull then throw_type_error eng ''filePattern.includes''
      else case dirPattern of
             JStr d \<Rightarrow>
               (case filePattern of
                  JStr f \<Rightarrow> Inr (js_includes f (replace_first ''/'' [] d))
                | JArr xs \<Rightarrow> Inr (JStr (replace_first ''/'' [] d) \<in> set xs)
                | _ \<Rightarrow> throw_type_error eng ''filePattern.includes'')
           | _ \<Rightarrow> throw_type_error eng ''dirPattern.replace'')"

definition redundant_exclusion :: "string \<Rightarrow> string \<Rightarrow> string" where
  "redundant_exclusion filePattern dirPattern =
     ''Potential redundant exclusion: file pattern '' @ [CHR 0x27] @ filePattern @ [CHR 0x27] @
     '' may be covered by directory pattern '' @ [CHR 0x27] @ dirPattern @ [CHR 0x27]"

fun dir_loop :: "engine \<Rightarrow> json \<Rightarrow> json list \<Rightarrow> (unit, ValidationResult) eff" where
  "dir_loop eng filePattern [] r = (Inr (), r)"
| "dir_loop eng filePattern (dirPattern # rest) r =
     (case pattern_covered eng filePattern dirPattern of
        Inl e \<Rightarrow> (Inl e, r)
      | Inr False \<Rightarrow> dir_loop eng filePattern rest r
      | Inr True \<Rightarrow>
          (case and_then (to_string eng filePattern) (\<lambda>f.
                and_then (to_string eng dirPattern) (\<lambda>d. Inr (redundant_exclusion f d))) of
             Inl e \<Rightarrow> (Inl e, r)
           | Inr msg \<Rightarrow> dir_loop eng filePattern rest (r\<lparr>warnings := warnings r @ [msg]\<rparr>)))"

fun file_loop :: "engine \<Rightarrow> json list \<Rightarrow> json \<Rightarrow> (unit, ValidationResult) eff" where
  "file_loop eng [] dirPatterns r = (Inr (), r)"
| "file_loop eng (filePattern # rest) dirPatterns r =
     (case iterate eng ''dirPatterns'' dirPatterns of
        Inl e \<Rightarrow> (Inl e, r)
      | Inr ds \<Rightarrow>
          (case dir_loop eng filePattern ds r of
             (Inl e, r') \<Rightarrow> (Inl e, r')
           | (Inr _, r') \<Rightarrow> file_loop eng rest dirPatterns r'))"

definition check_exclusions :: "engine \<Rightarrow> json \<Rightarrow> (unit, ValidationResult) eff" where
  "check_exclusions eng config r =
     (case config_member eng config ''exclusions'' of
        Inl e \<Rightarrow> (Inl e, r)
      | Inr exclusions \<Rightarrow>
          (case (opt_member exclusions ''file_patterns'',
                 opt_member exclusions ''directory_patterns'') of
             (Some filePatterns, Some dirPatterns) \<Rightarrow>
               if truthy (Some filePatterns) \<and> truthy (Some dirPatterns)
               then (case iterate eng ''filePatterns'' filePatterns of
                       Inl e \<Rightarrow> (Inl e, r)
                     | Inr fs \<Rightarrow> file_loop eng fs dirPatterns r)
               else (Inr (), r)
           | _ \<Rightarrow> (Inr (), r)))"

text \<open>
  \<open>webhook && !webhook.startsWith(prefix)\<close>: \<open>startsWith\<close> is a method of strings only.
\<close>

definition bad_webhook :: "engine \<Rightarrow> json \<Rightarrow> string \<Rightarrow> string \<Rightarrow> js_error + bool" where
  "bad_webhook eng config k pre =
     and_then (config_member eng config ''notification_settings'') (\<lambda>notification_settings.
       let webhook = opt_member notification_settings k
       in if truthy webhook
          then (case webhook of
                  Some (JStr url) \<Rightarrow> Inr (\<not> prefix pre url)
                | _ \<Rightarrow> throw_type_error eng (''config.notification_settings.'' @ k @ ''.startsWith''))
          else Inr False)"

definition performSemanticValidation :: "engine \<Rightarrow> json \<Rightarrow> (unit, ValidationResult) eff" where
  "performSemanticValidation eng config =
     io_bind (error_when
                (and_then (config_member eng config ''review_rules'') (\<lambda>review_rules.
                   if opt_member review_rules ''check_tests'' = Some (JBool False)
                   then greater_than eng (opt_member review_rules ''min_test_coverage'') 0
                   else Inr False))
                ''Inconsistent configuration: test coverage specified but test checking disabled'')
       (\<lambda>_.
     io_bind (error_when
                (and_then (config_member eng config ''review_rules'') (\<lambda>review_rules.
                   if opt_member review_rules ''check_documentation'' = Some (JBool False)
                   then and_then (config_member eng config ''documentation_rules'') (\<lambda>documentation_rules.
                          Inr (opt_member documentation_rules ''require_function_docs'' = Some (JBool True) \<or>
                               opt_member documentation_rules ''require_class_docs'' = Some (JBool True)))
                   else Inr False))
                ''Inconsistent configuration: documentation requirements specified but documentation checking disabled'')
       (\<lambda>_.
     io_bind (check_exclusions eng config)
       (\<lambda>_.
     io_bind (error_when (bad_webhook eng config ''slack_webhook'' ''https://hooks.slack.com/'')
                ''Invalid Slack webhook URL format'')
       (\<lambda>_.
     error_when (bad_webhook eng config ''discord_webhook'' ''https://discord.com/api/webhooks/'')
       ''Invalid Discord webhook URL format''))))"

text \<open>The outer \<open>catch\<close> block of \<open>validateConfig\<close>.\<close>

definition validation_error :: "js_error \<Rightarrow> ValidationResult \<Rightarrow> ValidationResult" where
  "validation_error error r = r\<lparr>errors := errors r @ [''Validation error: '' @ err_message error]\<rparr>"

text \<open>
  The schema branch of \<open>validateConfig\<close>: on a document that the schema accepts, the flag
  is set and the best-practice warnings are added; on any other, every reported
  violation becomes an error.
\<close>

definition schema_branch ::
  "engine \<Rightarrow> json \<Rightarrow> bool \<times> ajv_error list option \<Rightarrow> (unit, ValidationResult) eff" where
  "schema_branch eng config verdict =
     (case verdict of
        (isValid, validate_errors) \<Rightarrow>
          if isValid
          then io_bind (\<lambda>r. (Inr (), r\<lparr>valid := True\<rparr>)) (\<lambda>_. addCustomWarnings eng config)
          else (\<lambda>r. (Inr (),
                  (case validate_errors of
                     None \<Rightarrow> r\<lparr>valid := False\<rparr>
                   | Some es \<Rightarrow> r\<lparr>valid := False, errors := errors r @ map formatAjvError es\<rparr>))))"

text \<open>
  \<open>validateConfig\<close>: the result, and the schemas that the Ajv instance of the validator
  has been asked to compile, before (\<open>compiled\<close>) and after the call.
\<close>

definition validateConfig ::
  "engine \<Rightarrow> filesystem \<Rightarrow> json list \<Rightarrow> json \<Rightarrow> string \<Rightarrow> ValidationResult \<times> json list" where
  "validateConfig eng fs compiled schema filePath =
     (let result = \<lparr>result_file = filePath, valid = False, errors = [], warnings = []\<rparr>
      in if \<not> existsSync fs filePath
         then (result\<lparr>errors := errors result @ [''Configuration file not found'']\<rparr>, compiled)
         else
           case readFileSync fs filePath of
             Inl error \<Rightarrow> (validation_error error result, compiled)
           | Inr configContent \<Rightarrow>
               (case json_parse eng configContent of
                  Inl parseError \<Rightarrow>
                    (result\<lparr>errors := errors result @
                              [''JSON parsing error: '' @ err_message parseError]\<rparr>,
                     compiled)
                | Inr config \<Rightarrow>
                    (case ajv_compile eng compiled schema of
                       Inl error \<Rightarrow> (validation_error error result, compiled @ [schema])
                     | Inr validate \<Rightarrow>
                         (case io_bind (schema_branch eng config (validate config))
                                 (\<lambda>_. performSemanticValidation eng config) result of
                            (Inl error, r) \<Rightarrow> (validation_error error r, compiled @ [schema])
                          | (Inr _, r) \<Rightarrow> (r, compiled @ [schema])))))"

text \<open>
  \<open>path.extname\<close> (POSIX), after the documentation of the library: the extension of the
  last component of the path, trailing separators set aside, from its last dot; empty
  when that component has no dot, starts with its only dot, or is \<open>..\<close>.
\<close>

definition extname :: "string \<Rightarrow> string" where
  "extname p =
     (let trimmed = rev (dropWhile (\<lambda>c. c = CHR ''/'') (rev p));
          base = rev (takeWhile (\<lambda>c. c \<noteq> CHR ''/'') (rev trimmed));
          ext = rev (takeWhile (\<lambda>c. c \<noteq> CHR ''.'') (rev base));
          stem = take (length base - length ext - 1) base
      in if CHR ''.'' \<notin> set base \<or> stem = [] \<or> base = ''..'' then [] else CHR ''.'' # ext)"

text \<open>
  \<open>findConfigFiles\<close>: the files found and the warnings written to the console. What one
  path contributes does not depend on the other paths.
\<close>

definition find_in_path :: "engine \<Rightarrow> filesystem \<Rightarrow> string \<Rightarrow> string list \<times> string list" where
  "find_in_path eng fs configPath =
     (if \<not> existsSync fs configPath
      then ([], [''Configuration path not found: '' @ configPath])
      else
        case file_size fs configPath of
          None \<Rightarrow>
            (case readdirSync fs configPath of
               Inl error \<Rightarrow>
                 ([], [''Error reading path '' @ configPath @ '': '' @ err_message error])
             | Inr dirFiles \<Rightarrow>
                 (map (path_join eng configPath) (filter (\<lambda>f. extname f = ''.json'') dirFiles), []))
        | Some n \<Rightarrow> (if extname configPath = ''.json'' then [configPath] else [], []))"

fun findConfigFiles :: "engine \<Rightarrow> filesystem \<Rightarrow> string list \<Rightarrow> string list \<times> string list" where
  "findConfigFiles eng fs [] = ([], [])"
| "findConfigFiles eng fs (configPath # rest) =
     (case find_in_path eng fs configPath of
        (files, warned) \<Rightarrow>
          (case findConfigFiles eng fs rest of
             (files', warned') \<Rightarrow> (files @ files', warned @ warned')))"

text \<open>
  \<open>generateSummary\<close>: \<open>counts[m] = (counts[m] || 0) + 1\<close> for every message of every
  result. (Every message that the validator produces contains a space, so that none is
  the name of a property that a fresh object inherits.)
\<close>

definition count_message :: "(string \<rightharpoonup> nat) \<Rightarrow> string \<Rightarrow> (string \<rightharpoonup> nat)" where
  "count_message counts m = counts(m \<mapsto> (case counts m of None \<Rightarrow> 0 | Some c \<Rightarrow> c) + 1)"

fun count_messages :: "(string \<rightharpoonup> nat) \<Rightarrow> string list \<Rightarrow> (string \<rightharpoonup> nat)" where
  "count_messages counts [] = counts"
| "count_messages counts (m # ms) = count_messages (count_message counts m) ms"

fun summary_loop :: "summary \<Rightarrow> ValidationResult list \<Rightarrow> summary" where
  "summary_loop acc [] = acc"
| "summary_loop acc (result # rest) =
     summary_loop
       \<lparr>commonErrors = count_messages (commonErrors acc) (errors result),
        commonWarnings = count_messages (commonWarnings acc) (warnings result)\<rparr> rest"

definition generateSummary :: "ValidationResult list \<Rightarrow> summary" where
  "generateSummary rs = summary_loop \<lparr>commonErrors = Map.empty, commonWarnings = Map.empty\<rparr> rs"

text \<open>
  \<open>ConfigValidator.run\<close>: the loop over the files found, which collects the results and
  counts the valid and the invalid ones (and in which the Ajv instance goes from one
  document to the next), and the report. \<open>validator_run\<close> is the construction of the
  validator, with its new Ajv instance, followed by \<open>run\<close>. \<open>now\<close> is what \<open>new Date()\<close>
  gives. The lines that \<open>run\<close> prints are left out: no field of the report depends on
  them.
\<close>

fun validate_loop ::
  "engine \<Rightarrow> filesystem \<Rightarrow> json \<Rightarrow> string list \<Rightarrow> json list
     \<Rightarrow> ValidationResult list \<times> nat \<times> nat
     \<Rightarrow> json list \<times> ValidationResult list \<times> nat \<times> nat" where
  "validate_loop eng fs schema [] compiled acc = (compiled, acc)"
| "validate_loop eng fs schema (f # rest) compiled (rs, validCount, invalidCount) =
     (case validateConfig eng fs compiled schema f of
        (result, compiled') \<Rightarrow>
          validate_loop eng fs schema rest compiled'
            (rs @ [result],
             if valid result then validCount + 1 else validCount,
             if valid result then invalidCount else invalidCount + 1))"

text \<open>
  The results of the documents of a list, one after the other: each document is validated
  with the Ajv instance as its predecessors have left it.
\<close>

fun validated ::
  "engine \<Rightarrow> filesystem \<Rightarrow> json \<Rightarrow> string list \<Rightarrow> json list \<Rightarrow> ValidationResult list" where
  "validated eng fs schema [] compiled = []"
| "validated eng fs schema (f # rest) compiled =
     (case validateConfig eng fs compiled schema f of
        (result, compiled') \<Rightarrow> result # validated eng fs schema rest compiled')"



definition validator_run ::
  "engine \<Rightarrow> filesystem \<Rightarrow> json \<Rightarrow> string list \<Rightarrow> nat \<Rightarrow> js_error + ValidationReport" where
  "validator_run eng fs schema configPaths now =
     (let configFiles = fst (findConfigFiles eng fs configPaths)
      in if length configFiles = 0
         then Inl (JsError None ''No configuration files found to validate'')
         else
           case validate_loop eng fs schema configFiles [] ([], 0, 0) of
             (compiled, rs, validCount, invalidCount) \<Rightarrow>
               (if schema = JNull then throw_type_error eng ''this.schema.title''
                else Inr \<lparr>timestamp = now,
                          schemaVersion =
                            (case get_prop schema ''title'' of
                               None \<Rightarrow> JStr ''Unknown''
                             | Some title \<Rightarrow>
                                 if truthy (Some title) then title else JStr ''Unknown''),
                          totalFiles = length configFiles,
                          validFiles = validCount,
                          invalidFiles = invalidCount,
                          results = rs,
                          summary = generateSummary rs\<rparr>))"

section \<open>Concrete inputs\<close>

definition w0 :: world where
  "w0 = \<lparr>calls = [], console = []\<rparr>"

text \<open>A service that answers every request, with a workflow file pinned to v1.2.3.\<close>

definition gh_base :: github where
  "gh_base =
     \<lparr>apps_getRepoInstallation = (\<lambda>h ownr rep. Inr 7),
      repos_getLatestRelease = (\<lambda>h i ownr rep. Inr ''v1.2.3''),
      repos_listCommits = (\<lambda>h i ownr rep n. Inr [''0123456789abcdef'']),
      repos_getContent = (\<lambda>h i ownr rep p r.
         Inr (FileData
           ''uses: signinwithethereum/workflow-automation/.github/workflows/pr-review.yml@v1.2.3 ''
           ''abc'')),
      pulls_list = (\<lambda>h i ownr rep st hd. Inr []),
      repos_get = (\<lambda>h i ownr rep. Inr ''main''),
      repos_getBranch = (\<lambda>h i ownr rep b. Inr ''c0ffee''),
      git_createRef = (\<lambda>h i ownr rep r sha. Inr ()),
      git_updateRef = (\<lambda>h i ownr rep r sha. Inr ()),
      repos_createOrUpdateFileContents = (\<lambda>h i ownr rep p m c b sha. Inr ()),
      pulls_create = (\<lambda>h i ownr rep t b hd bs. Inr (''https://example.test/pull/1'', 1)),
      issues_addLabels = (\<lambda>h i ownr rep n ls. Inr ())\<rparr>"

text \<open>The same service, where the listing of open pull requests fails.\<close>

definition gh_pulls_500 :: github where
  "gh_pulls_500 =
     gh_base\<lparr>pulls_list := (\<lambda>h i ownr rep st hd. Inl (JsError (Some 500) ''Internal Server Error''))\<rparr>"


definition target_app :: repo_ref where
  "target_app = \<lparr>owner = ''acme'', repo = ''app'',
     workflowPath = ''.github/workflows/ai-review.yml'', configProfile = None\<rparr>"

definition info_with :: "string option \<Rightarrow> status \<Rightarrow> RepositoryInfo" where
  "info_with v st = \<lparr>owner = ''acme'', repo = ''app'',
     workflowPath = ''.github/workflows/ai-review.yml'', configProfile = None,
     currentVersion = v, lastChecked = 0, status = st, errorMessage = None,
     pullRequestUrl = None\<rparr>"


definition target_named :: "string \<Rightarrow> bool \<Rightarrow> RepositoryConfig" where
  "target_named rep en =
     \<lparr>owner = ''acme'', repo = rep, workflowPath = ''.github/workflows/ai-review.yml'',
      configProfile = None, enabled = en, lastUpdated = None\<rparr>"

definition config_v2 :: UpdateConfig where
  "config_v2 =
     \<lparr>repositories = [target_named ''broken'' True, target_named ''app'' True,
                       target_named ''conflict'' True, target_named ''legacy'' False],
      workflowVersion = ''2.0.0'', updateMessage = ''Routine update'', dryRun = False\<rparr>"



text \<open>
  Five configuration documents. The first sets \<open>check_tests\<close> to false and
  \<open>min_test_coverage\<close> to 80; the second lists one file pattern twice; the third has a
  directory pattern with two separators; the fourth has a number for its model; the fifth
  has a file pattern that contains a directory pattern only once the separator of that
  one is taken out.
\<close>

definition contradiction_text :: string where
  \<open>contradiction_text =
     ''{"model": "claude-3-5-sonnet-20241022", "review_rules": {"check_tests": false, "min_test_coverage": 80}}''\<close>

definition contradiction_json :: json where
  "contradiction_json =
     JObj [(''model'', JStr ''claude-3-5-sonnet-20241022''),
           (''review_rules'', JObj [(''check_tests'', JBool False),
                                     (''min_test_coverage'', JNum (Fin 80))])]"

definition duplicates_text :: string where
  \<open>duplicates_text =
     ''{"exclusions": {"file_patterns": ["node_modules/a.js", "node_modules/a.js", "src/x.ts"], "directory_patterns": ["node_modules/", "dist/"]}}''\<close>

definition duplicates_json :: json where
  "duplicates_json =
     JObj [(''exclusions'',
            JObj [(''file_patterns'',
                   JArr [JStr ''node_modules/a.js'', JStr ''node_modules/a.js'', JStr ''src/x.ts'']),
                  (''directory_patterns'', JArr [JStr ''node_modules/'', JStr ''dist/''])])]"

definition nested_text :: string where
  \<open>nested_text =
     ''{"exclusions": {"file_patterns": ["src/generated-srcgenerated.ts"], "directory_patterns": ["src/generated/"]}}''\<close>

definition nested_json :: json where
  "nested_json =
     JObj [(''exclusions'',
            JObj [(''file_patterns'', JArr [JStr ''src/generated-srcgenerated.ts'']),
                  (''directory_patterns'', JArr [JStr ''src/generated/''])])]"

definition model_number_text :: string where
  \<open>model_number_text =
     ''{"model": 5, "exclusions": {"file_patterns": ["node_modules/a.js"], "directory_patterns": ["node_modules/"]}}''\<close>

definition model_number_json :: json where
  "model_number_json =
     JObj [(''model'', JNum (Fin 5)),
           (''exclusions'',
            JObj [(''file_patterns'', JArr [JStr ''node_modules/a.js'']),
                  (''directory_patterns'', JArr [JStr ''node_modules/''])])]"

definition stripped_text :: string where
  \<open>stripped_text =
     ''{"exclusions": {"file_patterns": ["distribution.js", "src/x.ts"], "directory_patterns": ["dist/", "src"]}}''\<close>

definition stripped_json :: json where
  "stripped_json =
     JObj [(''exclusions'',
            JObj [(''file_patterns'', JArr [JStr ''distribution.js'', JStr ''src/x.ts'']),
                  (''directory_patterns'', JArr [JStr ''dist/'', JStr ''src''])])]"

text \<open>
  An engine that parses the five documents, whose schema validator accepts every
  document whatever its Ajv instance has compiled before, and that joins a directory and
  a name with a separator; and a file system with a directory \<open>configs\<close> and a file
  \<open>notes.yaml\<close>, where every path has a size.
\<close>

definition accept_all :: "json \<Rightarrow> bool \<times> ajv_error list option" where
  "accept_all doc = (True, None)"

definition eng_demo :: engine where
  "eng_demo =
     \<lparr>json_parse = (\<lambda>text.
         if text = contradiction_text then Inr contradiction_json
         else if text = duplicates_text then Inr duplicates_json
         else if text = nested_text then Inr nested_json
         else if text = model_number_text then Inr model_number_json
         else if text = stripped_text then Inr stripped_json
         else Inl (JsError None ''JSON Parse error: Unexpected identifier'')),
      ajv_compile = (\<lambda>compiled schema. Inr accept_all),
      coerce_number = (\<lambda>v. Inr None),
      coerce_string = (\<lambda>v. Inr ''[object Object]''),
      type_error = (\<lambda>expr. expr @ '' is not a function''),
      path_join = (\<lambda>dir name. dir @ ''/'' @ name)\<rparr>"

definition fs_demo :: filesystem where
  "fs_demo =
     \<lparr>existsSync = (\<lambda>p. p \<in> set [''configs'', ''configs/contradiction.json'',
                                     ''configs/duplicates.json'', ''configs/nested.json'',
                                     ''configs/model.json'', ''configs/stripped.json'',
                                     ''notes.yaml'']),
      readFileSync = (\<lambda>p.
         if p = ''configs/contradiction.json'' then Inr contradiction_text
         else if p = ''configs/duplicates.json'' then Inr duplicates_text
         else if p = ''configs/nested.json'' then Inr nested_text
         else if p = ''configs/model.json'' then Inr model_number_text
         else if p = ''configs/stripped.json'' then Inr stripped_text
         else if p = ''notes.yaml'' then Inr ''a: 1''
         else Inl (JsError None ''EISDIR: illegal operation on a directory, read'')),
      file_size = (\<lambda>p. if p = ''configs'' then Some 4096 else Some 64),
      readdirSync = (\<lambda>p.
         if p = ''configs''
         then Inr [''contradiction.json'', ''duplicates.json'', ''nested.json'', ''model.json'',
                   ''stripped.json'']
         else Inl (JsError None ''ENOTDIR: not a directory, scandir''))\<rparr>"


section \<open>Theorems: the version checker\<close>

lemmas io_defs = io_return_def io_throw_def io_bind_def io_catch_def io_log_def request_def

lemma updateVersionStatus_length:
  "length (updateVersionStatus entries centralVersion) = length entries"
  by (induction entries) simp_all

lemma updateVersionStatus_nth:
  "i < length entries \<Longrightarrow>
   updateVersionStatus entries centralVersion ! i =
     compare_version centralVersion (entries ! i)"
proof (induction entries arbitrary: i)
  case Nil
  then show ?case by simp
next
  case (Cons rp entries)
  then show ?case by (cases i) simp_all
qed

text \<open>
  C2. \<open>updateVersionStatus\<close> keeps the number and order of the entries, and the entry at
  each position is a function of the entry it replaces and of the authoritative version
  alone: an entry in status error or missing is left as it is; any other entry keeps all
  its fields but the status, which becomes up-to-date exactly when the extracted version
  is the authoritative version, that version after a \<open>v\<close>, or the literal \<open>main\<close>, and
  outdated otherwise.
\<close>

theorem updateVersionStatus_per_entry:
  "length (updateVersionStatus entries centralVersion) = length entries \<and>
   (\<forall>i < length entries.
      (let before = entries ! i;
           after = updateVersionStatus entries centralVersion ! i;
           current = (currentVersion before = Some centralVersion \<or>
                      currentVersion before = Some (''v'' @ centralVersion) \<or>
                      currentVersion before = Some ''main'')
       in (status before = Error \<or> status before = Missing \<longrightarrow> after = before) \<and>
          (status before \<noteq> Error \<and> status before \<noteq> Missing \<longrightarrow>
             after = before\<lparr>status := status after\<rparr> \<and>
             (status after = Up_to_date \<longleftrightarrow> current) \<and>
             (status after = Outdated \<longleftrightarrow> \<not> current))))"
proof (intro conjI allI impI)
  show "length (updateVersionStatus entries centralVersion) = length entries"
    by (rule updateVersionStatus_length)
next
  fix i
  assume "i < length entries"
  then have step: "updateVersionStatus entries centralVersion ! i =
      compare_version centralVersion (entries ! i)"
    by (rule updateVersionStatus_nth)
  show "let before = entries ! i;
            after = updateVersionStatus entries centralVersion ! i;
            current = (currentVersion before = Some centralVersion \<or>
                       currentVersion before = Some (''v'' @ centralVersion) \<or>
                       currentVersion before = Some ''main'')
        in (status before = Error \<or> status before = Missing \<longrightarrow> after = before) \<and>
           (status before \<noteq> Error \<and> status before \<noteq> Missing \<longrightarrow>
              after = before\<lparr>status := status after\<rparr> \<and>
              (status after = Up_to_date \<longleftrightarrow> current) \<and>
              (status after = Outdated \<longleftrightarrow> \<not> current))"
    unfolding step Let_def by (simp add: compare_version_def)
qed

theorem updateVersionStatus_per_entry_witness:
  "(let entries = [info_with (Some ''1.2.3'') Up_to_date, info_with (Some ''v1.2.3'') Up_to_date,
         info_with (Some ''main'') Up_to_date, info_with (Some ''1.0.0'') Up_to_date,
         info_with None Missing, info_with None Error];
        final = updateVersionStatus entries ''1.2.3''
    in length final = 6 \<and>
       status (final ! 0) = Up_to_date \<and> status (final ! 1) = Up_to_date \<and>
       status (final ! 2) = Up_to_date \<and> status (final ! 3) = Outdated \<and>
       final ! 4 = info_with None Missing \<and> final ! 5 = info_with None Error)"
proof -
  let ?rs = "[info_with (Some ''1.2.3'') Up_to_date, info_with (Some ''v1.2.3'') Up_to_date,
         info_with (Some ''main'') Up_to_date, info_with (Some ''1.0.0'') Up_to_date,
         info_with None Missing, info_with None Error]"
  let ?out = "updateVersionStatus ?rs ''1.2.3''"
  note spec = updateVersionStatus_per_entry [of ?rs "''1.2.3''"]
  from spec have len: "length ?out = 6" by simp
  from spec have each: "\<And>i. i < 6 \<Longrightarrow>
      (status (?rs ! i) = Error \<or> status (?rs ! i) = Missing \<longrightarrow> ?out ! i = ?rs ! i) \<and>
      (status (?rs ! i) \<noteq> Error \<and> status (?rs ! i) \<noteq> Missing \<longrightarrow>
         (status (?out ! i) = Up_to_date \<longleftrightarrow>
            currentVersion (?rs ! i) = Some ''1.2.3'' \<or>
            currentVersion (?rs ! i) = Some ''v1.2.3'' \<or>
            currentVersion (?rs ! i) = Some ''main'') \<and>
         (status (?out ! i) = Outdated \<longleftrightarrow>
            \<not> (currentVersion (?rs ! i) = Some ''1.2.3'' \<or>
               currentVersion (?rs ! i) = Some ''v1.2.3'' \<or>
               currentVersion (?rs ! i) = Some ''main'')))"
    unfolding Let_def by (simp del: updateVersionStatus.simps)
  have s0: "status (?out ! 0) = Up_to_date"
    using each [of 0] by (simp add: info_with_def del: updateVersionStatus.simps)
  have s1: "status (?out ! 1) = Up_to_date"
    using each [of 1] by (simp add: info_with_def del: updateVersionStatus.simps)
  have s2: "status (?out ! 2) = Up_to_date"
    using each [of 2] by (simp add: info_with_def del: updateVersionStatus.simps)
  have s3: "status (?out ! 3) = Outdated"
    using each [of 3] by (simp add: info_with_def del: updateVersionStatus.simps)
  have s4: "?out ! 4 = info_with None Missing"
    using each [of 4] by (simp add: info_with_def del: updateVersionStatus.simps)
  have s5: "?out ! 5 = info_with None Error"
    using each [of 5] by (simp add: info_with_def del: updateVersionStatus.simps)
  show ?thesis
    unfolding Let_def using len s0 s1 s2 s3 s4 s5 by (simp only: simp_thms)
qed

text \<open>
  C3, at a failing input. The target's workflow file is read and version 1.2.3 is
  extracted from it; the listing of open pull requests then fails. The \<open>catch\<close> block
  sets the status to error and leaves the extracted version in place, and
  \<open>updateVersionStatus\<close> leaves the entry alone: the final entry is in status error with
  a current version that is not \<open>null\<close>.
\<close>

theorem checkRepositoryVersion_error_keeps_version:
  "(let entry = fst (checkRepositoryVersion gh_pulls_500 0 target_app w0);
        final = updateVersionStatus [entry] ''1.2.3'' ! 0
    in status final = Error \<and> currentVersion final = Some ''1.2.3'')"
  by (simp add: checkRepositoryVersion_def gh_pulls_500_def gh_base_def target_app_def w0_def
      io_defs getInstallationOctokit_def check_failed_def extractVersionFromWorkflow_def
      match_here_def is_space_def compare_version_def)



section \<open>Theorems: the update propagator\<close>



lemma unhandled_failures_Nil [simp]: "unhandled_failures gh h [] = []"
  by (simp add: unhandled_failures_def)















lemma run_loop_world:
  "snd (run_loop gh config targets counts s) = snd (run_loop gh config targets counts' s)"
  by (induction targets arbitrary: counts counts' s) (auto split: prod.splits)















text \<open>
  C8. For a target with \<open>enabled = false\<close>, \<open>updateRepository\<close> returns after one console
  line without sending any request, and the loop of \<open>run\<close> counts the target as skipped
  (the second check of the loop body is not evaluated), never as failed.
\<close>

theorem disabled_target_skipped:
  "\<not> enabled rp \<Longrightarrow>
   (let s' = s\<lparr>console := console s @
                 [''Skipping disabled repository: '' @ owner rp @ ''/'' @ repo rp]\<rparr>
    in updateRepository gh config rp s = (Inr (), s') \<and>
       calls s' = calls s \<and>
       process_target gh config rp s = (Skipped, s') \<and>
       run_loop gh config (rp # rest) counts s =
         run_loop gh config rest (counts\<lparr>skipped := skipped counts + 1\<rparr>) s')"
  by (simp add: Let_def updateRepository_def process_target_def io_log_def)

theorem disabled_target_skipped_witness:
  "\<not> enabled (target_named ''legacy'' False) \<and>
   updateRepository gh_base config_v2 (target_named ''legacy'' False) w0 =
     (Inr (), \<lparr>calls = [], console = [''Skipping disabled repository: acme/legacy'']\<rparr>) \<and>
   process_target gh_base config_v2 (target_named ''legacy'' False) w0 =
     (Skipped, \<lparr>calls = [], console = [''Skipping disabled repository: acme/legacy'']\<rparr>)"
proof -
  have off: "\<not> enabled (target_named ''legacy'' False)"
    by (simp add: target_named_def)
  from disabled_target_skipped [OF off, of w0 gh_base config_v2]
  show ?thesis
    using off by (simp add: Let_def w0_def target_named_def)
qed

section \<open>Theorems: the configuration validator\<close>

lemmas validator_defs = validateConfig_def schema_branch_def addCustomWarnings_def
  performSemanticValidation_def check_exclusions_def bad_webhook_def model_is_haiku_def
  pattern_covered_def redundant_exclusion_def warn_when_def error_when_def validation_error_def
  config_member_def opt_member_def opt_length_def get_prop_def truthy_def to_number_def
  less_than_def greater_than_def to_string_def and_then_def iterate_def throw_type_error_def
  object_entries_def disabled_rules_def

lemmas demo_defs = eng_demo_def fs_demo_def accept_all_def contradiction_json_def
  contradiction_text_def duplicates_json_def duplicates_text_def nested_json_def nested_text_def
  model_number_json_def model_number_text_def stripped_json_def stripped_text_def

lemma io_bind_keeps:
  assumes "\<And>r. P (snd (m r)) = P r" and "\<And>x r. P (snd (f x r)) = P r"
  shows "P (snd (io_bind m f r)) = P r"
proof (cases "m r")
  case (Pair res r')
  with assms(1) [of r] have keep: "P r' = P r" by simp
  show ?thesis
  proof (cases res)
    case (Inl e)
    with Pair keep show ?thesis by (simp add: io_bind_def)
  next
    case (Inr x)
    with Pair keep assms(2) [of x r'] show ?thesis by (simp add: io_bind_def)
  qed
qed

lemma warn_when_keeps [simp]:
  "valid (snd (warn_when c msg r)) = valid r" "errors (snd (warn_when c msg r)) = errors r"
  by (simp_all add: warn_when_def split: sum.splits)

lemma error_when_keeps [simp]:
  "valid (snd (error_when c msg r)) = valid r" "warnings (snd (error_when c msg r)) = warnings r"
  by (simp_all add: error_when_def split: sum.splits)

lemma dir_loop_keeps [simp]:
  "valid (snd (dir_loop eng f ds r)) = valid r" "errors (snd (dir_loop eng f ds r)) = errors r"
  by (induction ds arbitrary: r) (simp_all split: sum.splits bool.splits)

lemma file_loop_keeps [simp]:
  "valid (snd (file_loop eng fps d r)) = valid r" "errors (snd (file_loop eng fps d r)) = errors r"
proof (induction fps arbitrary: r)
  case Nil
  { case 1 show ?case by simp }
  { case 2 show ?case by simp }
next
  case (Cons f fps)
  { case 1
    show ?case
      using Cons(1) [of "snd (dir_loop eng f ds r)" for ds]
      by (auto split: sum.splits prod.splits) (metis dir_loop_keeps(1) snd_conv)+ }
  { case 2
    show ?case
      using Cons(2) [of "snd (dir_loop eng f ds r)" for ds]
      by (auto split: sum.splits prod.splits) (metis dir_loop_keeps(2) snd_conv)+ }
qed

lemma check_exclusions_keeps [simp]:
  "valid (snd (check_exclusions eng config r)) = valid r"
  "errors (snd (check_exclusions eng config r)) = errors r"
  by (simp_all add: check_exclusions_def split: sum.splits option.splits)

lemma addCustomWarnings_valid [simp]: "valid (snd (addCustomWarnings eng config r)) = valid r"
  unfolding addCustomWarnings_def
  by (intro io_bind_keeps) (simp_all split: sum.splits option.splits)

lemma performSemanticValidation_valid [simp]:
  "valid (snd (performSemanticValidation eng config r)) = valid r"
  unfolding performSemanticValidation_def
  by (intro io_bind_keeps) simp_all

lemma schema_branch_valid [simp]:
  "valid (snd (schema_branch eng config verdict r)) = fst verdict"
proof (cases verdict)
  case (Pair isValid es)
  show ?thesis
  proof (cases isValid)
    case True
    have "valid (snd (addCustomWarnings eng config (r\<lparr>valid := True\<rparr>))) = True"
      by simp
    with True Pair show ?thesis by (simp add: schema_branch_def io_bind_def)
  next
    case False
    with Pair show ?thesis by (simp add: schema_branch_def split: option.splits)
  qed
qed

lemma validateConfig_valid_iff:
  "valid (fst (validateConfig eng fs compiled schema p)) \<longleftrightarrow>
     existsSync fs p \<and>
     (\<exists>text config validate.
        readFileSync fs p = Inr text \<and> json_parse eng text = Inr config \<and>
        ajv_compile eng compiled schema = Inr validate \<and> fst (validate config))"
proof -
  have step: "valid (snd (io_bind (schema_branch eng config verdict)
                 (\<lambda>_. performSemanticValidation eng config) r)) = fst verdict"
    for config verdict r
  proof (cases "schema_branch eng config verdict r")
    case (Pair res r')
    with schema_branch_valid [of eng config verdict r] have "valid r' = fst verdict" by simp
    with Pair show ?thesis by (cases res) (simp_all add: io_bind_def)
  qed
  have fin: "valid (fst (case m of (Inl error, r) \<Rightarrow> (validation_error error r, c)
                                 | (Inr x, r) \<Rightarrow> (r, c)))
      = valid (snd m)" for m :: "(js_error + unit) \<times> ValidationResult" and c :: "json list"
    by (cases m) (auto simp: validation_error_def split: sum.splits)
  show ?thesis
    unfolding validateConfig_def Let_def
    by (auto simp: validation_error_def fin step split: sum.splits)
qed

text \<open>
  C1, at a failing input. The document sets \<open>review_rules.check_tests\<close> to false and
  \<open>review_rules.min_test_coverage\<close> to 80, and the schema accepts it. The semantic check
  appends its contradiction error, and \<open>valid\<close> stays true: the result is valid with a
  non-empty list of errors. (\<open>validateConfig_valid_iff\<close>: the flag is the verdict
  of the schema, whatever the semantic checks append.)
\<close>

theorem validateConfig_valid_with_semantic_error:
  "fst (validateConfig eng_demo fs_demo [] (JObj []) ''configs/contradiction.json'') =
     \<lparr>result_file = ''configs/contradiction.json'', valid = True,
      errors = [''Inconsistent configuration: test coverage specified but test checking disabled''],
      warnings = []\<rparr>"
  by (simp add: validator_defs demo_defs io_defs)

lemma validated_length: "length (validated eng fs schema files compiled) = length files"
  by (induction files arbitrary: compiled) (simp_all split: prod.splits)

lemma validate_loop_spec:
  "snd (validate_loop eng fs schema files compiled (rs, v, i)) =
     (rs @ validated eng fs schema files compiled,
      v + length (filter valid (validated eng fs schema files compiled)),
      i + length (filter (\<lambda>r. \<not> valid r) (validated eng fs schema files compiled)))"
  by (induction files arbitrary: compiled rs v i) (simp_all split: prod.splits)

lemma validate_duplicates:
  "validateConfig eng_demo fs_demo compiled (JObj []) ''configs/duplicates.json'' =
     (\<lparr>result_file = ''configs/duplicates.json'', valid = True, errors = [],
      warnings = [redundant_exclusion ''node_modules/a.js'' ''node_modules/'',
                  redundant_exclusion ''node_modules/a.js'' ''node_modules/'']\<rparr>,
      compiled @ [JObj []])"
  by (simp add: validator_defs demo_defs io_defs)

lemma count_messages_occurrences:
  "count_messages counts ms m =
     (if m \<in> set ms
      then Some ((case counts m of None \<Rightarrow> 0 | Some c \<Rightarrow> c) + count_list ms m)
      else counts m)"
  by (induction ms arbitrary: counts) (auto simp: count_message_def)

lemma summary_loop_occurrences:
  "commonErrors (summary_loop acc rs) m =
     (if \<exists>r \<in> set rs. m \<in> set (errors r)
      then Some ((case commonErrors acc m of None \<Rightarrow> 0 | Some c \<Rightarrow> c) +
                 sum_list (map (\<lambda>r. count_list (errors r) m) rs))
      else commonErrors acc m)"
  "commonWarnings (summary_loop acc rs) m =
     (if \<exists>r \<in> set rs. m \<in> set (warnings r)
      then Some ((case commonWarnings acc m of None \<Rightarrow> 0 | Some c \<Rightarrow> c) +
                 sum_list (map (\<lambda>r. count_list (warnings r) m) rs))
      else commonWarnings acc m)"
  by (induction rs arbitrary: acc; auto simp: count_messages_occurrences count_list_0_iff)+

lemma generateSummary_occurrences:
  "commonErrors (generateSummary rs) m =
     (if \<exists>r \<in> set rs. m \<in> set (errors r)
      then Some (sum_list (map (\<lambda>r. count_list (errors r) m) rs)) else None)"
  "commonWarnings (generateSummary rs) m =
     (if \<exists>r \<in> set rs. m \<in> set (warnings r)
      then Some (sum_list (map (\<lambda>r. count_list (warnings r) m) rs)) else None)"
  by (simp_all add: generateSummary_def summary_loop_occurrences)

lemma validator_run_totals:
  assumes "validator_run eng fs schema configPaths now = Inr report"
  shows "totalFiles report = validFiles report + invalidFiles report"
    and "results report = validated eng fs schema (fst (findConfigFiles eng fs configPaths)) []"
    and "summary report = generateSummary (results report)"
proof -
  let ?files = "fst (findConfigFiles eng fs configPaths)"
  let ?rs = "validated eng fs schema ?files []"
  have len: "length ?rs = length ?files"
    by (rule validated_length)
  have split: "length (filter valid ?rs) + length (filter (\<lambda>r. \<not> valid r) ?rs) = length ?files"
    using sum_length_filter_compl [of valid ?rs] len by simp
  have loop: "validate_loop eng fs schema ?files [] ([], 0, 0) =
      (fst (validate_loop eng fs schema ?files [] ([], 0, 0)),
       ?rs, length (filter valid ?rs), length (filter (\<lambda>r. \<not> valid r) ?rs))"
    using validate_loop_spec [of eng fs schema ?files "[]" "[]" 0 0]
    by (simp add: prod_eq_iff)
  from assms have rep: "report =
      \<lparr>timestamp = now,
       schemaVersion = (case get_prop schema ''title'' of
                          None \<Rightarrow> JStr ''Unknown''
                        | Some title \<Rightarrow> if truthy (Some title) then title else JStr ''Unknown''),
       totalFiles = length ?files,
       validFiles = length (filter valid ?rs),
       invalidFiles = length (filter (\<lambda>r. \<not> valid r) ?rs),
       results = ?rs,
       summary = generateSummary ?rs\<rparr>"
    unfolding validator_run_def Let_def
    by (subst (asm) loop) (auto simp: throw_type_error_def split: if_splits)
  show "totalFiles report = validFiles report + invalidFiles report"
    unfolding rep using split by simp
  show "results report = ?rs" unfolding rep by simp
  show "summary report = generateSummary (results report)" unfolding rep by simp
qed

text \<open>
  C4, at a failing input. The one document of the run lists the file pattern
  \<open>node_modules/a.js\<close> twice, so that its result holds the same warning twice: one result
  contains the warning, and the summary counts it twice. (\<open>generateSummary_occurrences\<close>:
  the summary counts occurrences; \<open>validator_run_totals\<close>: the total is the sum
  of the valid and the invalid files.)
\<close>

theorem summary_counts_occurrences:
  "(case validator_run eng_demo fs_demo (JObj []) [''configs/duplicates.json''] 0 of
      Inl e \<Rightarrow> False
    | Inr report \<Rightarrow>
        length (filter (\<lambda>r. redundant_exclusion ''node_modules/a.js'' ''node_modules/''
                              \<in> set (warnings r)) (results report)) = 1 \<and>
        commonWarnings (summary report)
          (redundant_exclusion ''node_modules/a.js'' ''node_modules/'') = Some 2)"
proof -
  have files: "fst (findConfigFiles eng_demo fs_demo [''configs/duplicates.json'']) =
      [''configs/duplicates.json'']"
    by (simp add: find_in_path_def extname_def fs_demo_def)
  show ?thesis
    unfolding validator_run_def Let_def files
    by (simp add: validate_duplicates generateSummary_def count_message_def get_prop_def)
qed



















lemma findConfigFiles_concat:
  "findConfigFiles eng fs configPaths =
     (concat (map (\<lambda>p. fst (find_in_path eng fs p)) configPaths),
      concat (map (\<lambda>p. snd (find_in_path eng fs p)) configPaths))"
  by (induction configPaths) (simp_all split: prod.splits)






















end
